theory Spec2Isabelle
  imports Main "HOL-Library.AList"
begin

section \<open>The remote price API\<close>

text \<open>
  Both endpoints are read with \<^verbatim>\<open>requests.get\<close>. A call either raises (no connection, DNS
  failure, ...) or returns a response with a status code and a JSON body. The body is
  modelled after parsing: the catalog is the array of \<^verbatim>\<open>{"id": .., "name": ..}\<close> objects,
  the latest prices are the object under \<^verbatim>\<open>"data"\<close>, keyed by the decimal identifier.
  Prices and identifiers are JSON integers, hence Python's unbounded \<open>int\<close>. Every entry
  is taken to carry all its fields with integer values: a response with a missing or
  \<^verbatim>\<open>null\<close> field is outside the model.
\<close>

datatype 'a reply = NetworkFailure | Response int 'a

record catalog_entry =
  cat_name :: string
  cat_id :: int

record latest_entry =
  api_high :: int
  api_low :: int
  highTime :: int
  lowTime :: int

record remote =
  mapping_endpoint :: "catalog_entry list reply"
  latest_endpoint :: "(string \<rightharpoonup> latest_entry) reply"

text \<open>The one exception the modelled paths can raise: the one of \<^verbatim>\<open>requests.get\<close>.\<close>

datatype exn = RequestException

definition base_url :: string where
  "base_url = ''https://prices.runescape.wiki/api/v1/osrs''"

subsection \<open>Python's \<^verbatim>\<open>str.lower\<close> and \<^verbatim>\<open>str\<close> on the values that occur\<close>

text \<open>Item names are ASCII; \<open>lower\<close> maps \<open>A..Z\<close> to \<open>a..z\<close> and keeps every other character.\<close>

definition lower_char :: "char \<Rightarrow> char" where
  "lower_char c =
     (if 65 \<le> (of_char c :: nat) \<and> (of_char c :: nat) \<le> 90
      then char_of ((of_char c :: nat) + 32) else c)"

definition lower :: "string \<Rightarrow> string" where
  "lower s = map lower_char s"

fun str_nat :: "nat \<Rightarrow> string" where
  "str_nat n =
     (if n < 10 then [''0123456789'' ! n]
      else str_nat (n div 10) @ [''0123456789'' ! (n mod 10)])"

declare str_nat.simps [simp del]

definition str :: "int \<Rightarrow> string" where
  "str i = (if i < 0 then CHR ''-'' # str_nat (nat (- i)) else str_nat (nat i))"

section \<open>Program state\<close>

text \<open>
  One row of the table \<^verbatim>\<open>items\<close> created by \<open>initDB\<close>:
  \<^verbatim>\<open>id INTEGER PRIMARY KEY AUTOINCREMENT, name TEXT NOT NULL, high_price REAL NOT NULL,
  low_price REAL NOT NULL, last_high_price REAL, last_low_price REAL\<close>.
  There is no UNIQUE constraint on \<^verbatim>\<open>name\<close>. The two nullable columns are options.
  The REAL columns hold the integer prices of the API; SQLite stores an integer of
  magnitude below \<open>2^53\<close> in a REAL column without loss, so the stored prices are
  modelled by the integers they denote.
\<close>

record row =
  row_id :: int
  row_name :: string
  row_high_price :: int
  row_low_price :: int
  row_last_high_price :: "int option"
  row_last_low_price :: "int option"

text \<open>
  The result entry that \<open>fetch_prices\<close> builds for one item. \<open>last_updated\<close> is kept as
  the epoch seconds that \<^verbatim>\<open>datetime.fromtimestamp\<close> converts; no caller reads it.
\<close>

record price =
  high :: int
  low :: int
  last_updated :: int

text \<open>
  A \<^verbatim>\<open>QListWidgetItem\<close> of the list \<open>tracked_items\<close>. Its text is
  \<^verbatim>\<open>--name--\nBuy: high (high_change)\nSell: low (low_change)\<close>; the model keeps the
  five values that are interpolated, before number formatting.
\<close>

datatype colour = DefaultColour | Green | Red | Amber

record label =
  label_name :: string
  buy :: int
  buy_change :: int
  sell :: int
  sell_change :: int

record list_item =
  item_text :: label
  user_data :: string
  foreground :: colour

text \<open>
  The state of an \<^verbatim>\<open>OSRSPriceTracker\<close> with its \<^verbatim>\<open>GETracker\<close>:
  \<^item> \<open>items\<close> is \<^verbatim>\<open>ge_tracker.items\<close>, a dict from name to identifier, kept in insertion
    order as an association list;
  \<^item> \<open>all_items\<close> is the catalog cached at start-up;
  \<^item> \<open>db_rows\<close> is the table in rowid order and \<open>db_seq\<close> the AUTOINCREMENT counter
    (\<^verbatim>\<open>sqlite_sequence\<close>);
  \<^item> \<open>tracked_items\<close> is the list widget;
  \<^item> \<open>requests\<close> lists the URLs fetched so far and \<open>stdout\<close> the lines printed.
\<close>

record tracker =
  items :: "(string \<times> int) list"
  all_items :: "string \<rightharpoonup> int"
  db_rows :: "row list"
  db_seq :: int
  tracked_items :: "list_item list"
  requests :: "string list"
  stdout :: "string list"

definition print :: "string \<Rightarrow> tracker \<Rightarrow> tracker" where
  "print line st = st\<lparr>stdout := stdout st @ [line]\<rparr>"

definition http_get :: "string \<Rightarrow> tracker \<Rightarrow> tracker" where
  "http_get url st = st\<lparr>requests := requests st @ [url]\<rparr>"

text \<open>Python's truth value of \<^verbatim>\<open>item_id\<close>: \<^verbatim>\<open>None\<close> and \<open>0\<close> are false.\<close>

fun truthy :: "int option \<Rightarrow> bool" where
  "truthy None = False"
| "truthy (Some i) = (i \<noteq> 0)"

section \<open>ge\_tracker.py\<close>

text \<open>
  \<open>get_item_id\<close>: one request to \<^verbatim>\<open>/mapping\<close>; on status 200 the identifier of the first
  catalog entry whose lowered name equals the lowered query, otherwise \<^verbatim>\<open>None\<close>. The
  request is not guarded, so its exception leaves the function.
\<close>

definition get_item_id :: "remote \<Rightarrow> string \<Rightarrow> tracker \<Rightarrow> (exn + int option) \<times> tracker" where
  "get_item_id env item_name st =
     (let st1 = http_get (base_url @ ''/mapping'') st in
      case mapping_endpoint env of
        NetworkFailure \<Rightarrow> (Inl RequestException, st1)
      | Response status_code its \<Rightarrow>
          if status_code = 200
          then (Inr (map_option cat_id
                  (find (\<lambda>item. lower (cat_name item) = lower item_name) its)), st1)
          else (Inr None, st1))"

text \<open>\<open>add_item\<close> of the command-line tracker.\<close>

definition add_item :: "remote \<Rightarrow> string \<Rightarrow> tracker \<Rightarrow> (exn + unit) \<times> tracker" where
  "add_item env item_name st =
     (case get_item_id env item_name st of
        (Inl e, st1) \<Rightarrow> (Inl e, st1)
      | (Inr item_id, st1) \<Rightarrow>
          if truthy item_id
          then (Inr (), print (''Added '' @ item_name @ '' to tracking list.'')
                  (st1\<lparr>items := AList.update item_name (the item_id) (items st1)\<rparr>))
          else (Inr (), print (''Could not find item: '' @ item_name) st1))"

text \<open>
  The loop of \<open>fetch_prices\<close> over \<^verbatim>\<open>self.items.items()\<close>: \<open>results\<close> is the dict being
  built, \<open>out\<close> the lines printed by the loop.
\<close>

fun price_loop ::
  "(string \<rightharpoonup> latest_entry) \<Rightarrow> (string \<times> int) list \<Rightarrow> (string \<rightharpoonup> price) \<Rightarrow> string list
   \<Rightarrow> (string \<rightharpoonup> price) \<times> string list" where
  "price_loop data [] results out = (results, out)"
| "price_loop data ((item_name, item_id) # rest) results out =
     (case data (str item_id) of
        Some item_data \<Rightarrow>
          price_loop data rest
            (results(item_name \<mapsto>
               \<lparr>high = api_high item_data, low = api_low item_data,
                last_updated = highTime item_data\<rparr>)) out
      | None \<Rightarrow>
          price_loop data rest results (out @ [''No data available for '' @ item_name]))"

definition fetch_prices :: "remote \<Rightarrow> tracker \<Rightarrow> (exn + (string \<rightharpoonup> price)) \<times> tracker" where
  "fetch_prices env st =
     (if items st = []
      then (Inr Map.empty, print ''No items to track. Add items using add_item() method.'' st)
      else
        let st1 = http_get (base_url @ ''/latest'') st in
        case latest_endpoint env of
          NetworkFailure \<Rightarrow> (Inl RequestException, st1)
        | Response status_code data \<Rightarrow>
            if status_code = 200
            then (case price_loop data (items st1) Map.empty [] of
                    (results, out) \<Rightarrow> (Inr results, st1\<lparr>stdout := stdout st1 @ out\<rparr>))
            else (Inr Map.empty, print ''Failed to fetch prices. Please try again later.'' st1))"

section \<open>ui\_tracker.py\<close>

text \<open>
  \<open>fetch_all_items\<close> wraps the same request in \<^verbatim>\<open>try/except Exception\<close>: it never raises
  and returns the empty dict on any failure. The dict comprehension keeps the last
  identifier of a repeated name. The line printed for an exception ends with the text of
  that exception, which the model fixes to one string.
\<close>

fun catalog_dict :: "catalog_entry list \<Rightarrow> (string \<rightharpoonup> int) \<Rightarrow> (string \<rightharpoonup> int)" where
  "catalog_dict [] d = d"
| "catalog_dict (item # rest) d = catalog_dict rest (d(cat_name item \<mapsto> cat_id item))"

definition fetch_all_items :: "remote \<Rightarrow> tracker \<Rightarrow> (string \<rightharpoonup> int) \<times> tracker" where
  "fetch_all_items env st =
     (let st1 = http_get (base_url @ ''/mapping'') st in
      case mapping_endpoint env of
        NetworkFailure \<Rightarrow> (Map.empty, print ''Error fetching items: connection failed'' st1)
      | Response status_code its \<Rightarrow>
          if status_code = 200 then (catalog_dict its Map.empty, st1)
          else (Map.empty, print (''Error fetching items: HTTP '' @ str status_code) st1))"

subsection \<open>The three SQL statements\<close>

text \<open>
  \<^verbatim>\<open>INSERT OR REPLACE INTO items (name, high_price, low_price, last_high_price,
  last_low_price)\<close>: the statement gives no \<^verbatim>\<open>id\<close> and the table has no other uniqueness
  constraint, so no existing row ever conflicts and a row is always added. AUTOINCREMENT
  picks a rowid one above the largest the table has ever held.
\<close>

definition next_rowid :: "tracker \<Rightarrow> int" where
  "next_rowid st = fold max (map row_id (db_rows st)) (db_seq st) + 1"

definition insert_or_replace :: "string \<Rightarrow> int \<Rightarrow> int \<Rightarrow> int \<Rightarrow> int \<Rightarrow> tracker \<Rightarrow> tracker" where
  "insert_or_replace n h l lh ll st =
     st\<lparr>db_rows := db_rows st @
           [\<lparr>row_id = next_rowid st, row_name = n, row_high_price = h, row_low_price = l,
             row_last_high_price = Some lh, row_last_low_price = Some ll\<rparr>],
        db_seq := next_rowid st\<rparr>"

text \<open>\<^verbatim>\<open>UPDATE items SET high_price = ?, low_price = ?, last_high_price = ?,
  last_low_price = ? WHERE id = ?\<close>\<close>

definition update_by_id :: "int \<Rightarrow> int \<Rightarrow> int \<Rightarrow> int \<Rightarrow> int \<Rightarrow> tracker \<Rightarrow> tracker" where
  "update_by_id h l lh ll i st =
     st\<lparr>db_rows :=
          map (\<lambda>r. if row_id r = i
                   then r\<lparr>row_high_price := h, row_low_price := l,
                          row_last_high_price := Some lh, row_last_low_price := Some ll\<rparr>
                   else r) (db_rows st)\<rparr>"

text \<open>\<^verbatim>\<open>DELETE FROM items WHERE name = ?\<close>\<close>

definition delete_by_name :: "string \<Rightarrow> tracker \<Rightarrow> tracker" where
  "delete_by_name n st = st\<lparr>db_rows := filter (\<lambda>r. row_name r \<noteq> n) (db_rows st)\<rparr>"

subsection \<open>The list widget\<close>

definition updateItemColor :: "list_item \<Rightarrow> int \<Rightarrow> int \<Rightarrow> list_item" where
  "updateItemColor item high_change low_change =
     (if high_change > 0 \<and> low_change > 0 then item\<lparr>foreground := Green\<rparr>
      else if high_change < 0 \<and> low_change < 0 then item\<lparr>foreground := Red\<rparr>
      else item\<lparr>foreground := Amber\<rparr>)"

definition make_text :: "string \<Rightarrow> int \<Rightarrow> int \<Rightarrow> int \<Rightarrow> int \<Rightarrow> label" where
  "make_text item_name high_price low_price high_change low_change =
     \<lparr>label_name = item_name, buy = high_price, buy_change = high_change,
      sell = low_price, sell_change = low_change\<rparr>"

definition addItemToList :: "string \<Rightarrow> int \<Rightarrow> int \<Rightarrow> int \<Rightarrow> int \<Rightarrow> tracker \<Rightarrow> tracker" where
  "addItemToList item_name high_price low_price last_high_price last_low_price st =
     (let high_change = high_price - last_high_price;
          low_change = low_price - last_low_price;
          item = \<lparr>item_text = make_text item_name high_price low_price high_change low_change,
                  user_data = item_name, foreground = DefaultColour\<rparr>
      in st\<lparr>tracked_items := tracked_items st @ [updateItemColor item high_change low_change]\<rparr>)"

text \<open>The loop of \<open>updateItemInList\<close>: the first item carrying the name is rewritten.\<close>

fun update_first :: "string \<Rightarrow> int \<Rightarrow> int \<Rightarrow> int \<Rightarrow> int \<Rightarrow> list_item list \<Rightarrow> list_item list" where
  "update_first item_name high_price low_price last_high_price last_low_price [] = []"
| "update_first item_name high_price low_price last_high_price last_low_price (item # rest) =
     (if user_data item = item_name
      then (let high_change = high_price - last_high_price;
                low_change = low_price - last_low_price
            in updateItemColor
                 (item\<lparr>item_text :=
                    make_text item_name high_price low_price high_change low_change\<rparr>)
                 high_change low_change # rest)
      else item #
        update_first item_name high_price low_price last_high_price last_low_price rest)"

definition updateItemInList :: "string \<Rightarrow> int \<Rightarrow> int \<Rightarrow> int \<Rightarrow> int \<Rightarrow> tracker \<Rightarrow> tracker" where
  "updateItemInList item_name high_price low_price last_high_price last_low_price st =
     st\<lparr>tracked_items :=
          update_first item_name high_price low_price last_high_price last_low_price
            (tracked_items st)\<rparr>"

subsection \<open>Adding, refreshing, removing\<close>

definition addSelectedItem :: "remote \<Rightarrow> string \<Rightarrow> tracker \<Rightarrow> (exn + unit) \<times> tracker" where
  "addSelectedItem env item_name st =
     (let item_id = all_items st item_name in
      if truthy item_id
      then
        (case fetch_prices env (st\<lparr>items := AList.update item_name (the item_id) (items st)\<rparr>) of
           (Inl e, st2) \<Rightarrow> (Inl e, st2)
         | (Inr prices, st2) \<Rightarrow>
             (case prices item_name of
                Some p \<Rightarrow>
                  (Inr (), addItemToList item_name (high p) (low p) (high p) (low p)
                             (insert_or_replace item_name (high p) (low p) (high p) (low p) st2))
              | None \<Rightarrow> (Inr (), print (''No price data available for '' @ item_name) st2)))
      else (Inr (), print (''Could not find item ID for '' @ item_name) st))"

text \<open>
  The loop of \<open>refreshPrices\<close> runs over the rows fetched by the SELECT before the loop;
  the columns \<^verbatim>\<open>high_price, low_price\<close> it reads are bound to the loop variables
  \<^verbatim>\<open>last_high_price, last_low_price\<close>.
\<close>

fun refresh_loop :: "(string \<rightharpoonup> price) \<Rightarrow> row list \<Rightarrow> tracker \<Rightarrow> tracker" where
  "refresh_loop prices [] st = st"
| "refresh_loop prices (r # rest) st =
     refresh_loop prices rest
       (case prices (row_name r) of
          Some p \<Rightarrow>
            updateItemInList (row_name r) (high p) (low p) (row_high_price r) (row_low_price r)
              (update_by_id (high p) (low p) (row_high_price r) (row_low_price r) (row_id r) st)
        | None \<Rightarrow> st)"

definition refreshPrices :: "remote \<Rightarrow> tracker \<Rightarrow> (exn + unit) \<times> tracker" where
  "refreshPrices env st =
     (case fetch_prices env st of
        (Inl e, st1) \<Rightarrow> (Inl e, st1)
      | (Inr prices, st1) \<Rightarrow> (Inr (), refresh_loop prices (db_rows st1) st1))"

text \<open>
  \<open>removeSelectedItem\<close> takes no name: it removes the widget's current item.
  \<open>current\<close> is the row of that item, \<^verbatim>\<open>None\<close> when the widget has no current item
  (a row outside the list is no current item either).
\<close>

definition removeSelectedItem :: "nat option \<Rightarrow> tracker \<Rightarrow> tracker" where
  "removeSelectedItem current st =
     (case current of
        None \<Rightarrow> st
      | Some i \<Rightarrow>
          if i < length (tracked_items st)
          then (let item_name = user_data (tracked_items st ! i);
                    st1 = delete_by_name item_name st
                in st1\<lparr>tracked_items := take i (tracked_items st1) @ drop (Suc i) (tracked_items st1),
                       items := AList.delete item_name (items st1)\<rparr>)
          else st)"

text \<open>
  \<open>loadItems\<close> at start-up: every stored row is shown, with a NULL last price replaced by
  the current one, and its name is resolved again with one request per row.
\<close>

fun load_loop :: "remote \<Rightarrow> row list \<Rightarrow> tracker \<Rightarrow> (exn + unit) \<times> tracker" where
  "load_loop env [] st = (Inr (), st)"
| "load_loop env (r # rest) st =
     (let last_high = (case row_last_high_price r of Some v \<Rightarrow> v | None \<Rightarrow> row_high_price r);
          last_low = (case row_last_low_price r of Some v \<Rightarrow> v | None \<Rightarrow> row_low_price r);
          st1 = addItemToList (row_name r) (row_high_price r) (row_low_price r) last_high last_low st
      in case get_item_id env (row_name r) st1 of
           (Inl e, st2) \<Rightarrow> (Inl e, st2)
         | (Inr item_id, st2) \<Rightarrow>
             load_loop env rest
               (if truthy item_id
                then st2\<lparr>items := AList.update (row_name r) (the item_id) (items st2)\<rparr>
                else st2))"

definition loadItems :: "remote \<Rightarrow> tracker \<Rightarrow> (exn + unit) \<times> tracker" where
  "loadItems env st = load_loop env (db_rows st) st"

text \<open>
  The constructor, from the table found on disk: an empty tracker and widget, then
  \<open>loadItems\<close>, then the catalog cache.
\<close>

definition init :: "remote \<Rightarrow> row list \<Rightarrow> int \<Rightarrow> (exn + unit) \<times> tracker" where
  "init env stored seq =
     (case loadItems env
             \<lparr>items = [], all_items = Map.empty, db_rows = stored, db_seq = seq,
              tracked_items = [], requests = [], stdout = []\<rparr> of
        (Inl e, st1) \<Rightarrow> (Inl e, st1)
      | (Inr u, st1) \<Rightarrow>
          (case fetch_all_items env st1 of
             (d, st2) \<Rightarrow> (Inr (), st2\<lparr>all_items := d\<rparr>)))"

section \<open>Notions used in the statements\<close>

text \<open>The result entry built from one entry of the response.\<close>

definition quote :: "latest_entry \<Rightarrow> price" where
  "quote d = \<lparr>high = api_high d, low = api_low d, last_updated = highTime d\<rparr>"

text \<open>What one pass of the refresh loop writes into a row, and into a list item.\<close>

definition refreshed :: "(string \<rightharpoonup> price) \<Rightarrow> row \<Rightarrow> row" where
  "refreshed prices r =
     (case prices (row_name r) of
        Some p \<Rightarrow> r\<lparr>row_high_price := high p, row_low_price := low p,
                     row_last_high_price := Some (row_high_price r),
                     row_last_low_price := Some (row_low_price r)\<rparr>
      | None \<Rightarrow> r)"

definition shown :: "string \<Rightarrow> int \<Rightarrow> int \<Rightarrow> int \<Rightarrow> int \<Rightarrow> list_item \<Rightarrow> list_item" where
  "shown n h l lh ll item =
     updateItemColor (item\<lparr>item_text := make_text n h l (h - lh) (l - ll)\<rparr>) (h - lh) (l - ll)"

text \<open>
  Well-formedness of a state: \<^verbatim>\<open>id\<close> is the primary key of the table, \<open>items\<close> is a dict
  (no key twice), and every stored name has an item in the list widget.
\<close>

definition tracker_ok :: "tracker \<Rightarrow> bool" where
  "tracker_ok st \<longleftrightarrow>
     distinct (map row_id (db_rows st)) \<and>
     distinct (map fst (items st)) \<and>
     row_name ` set (db_rows st) \<subseteq> user_data ` set (tracked_items st)"

subsection \<open>Example inputs\<close>

definition dragon_bones :: "int \<Rightarrow> int \<Rightarrow> remote" where
  "dragon_bones h l =
     \<lparr>mapping_endpoint = Response 200 [\<lparr>cat_name = ''Dragon bones'', cat_id = 536\<rparr>],
      latest_endpoint =
        Response 200 [''536'' \<mapsto> \<lparr>api_high = h, api_low = l, highTime = 1700000000,
                                      lowTime = 1700000000\<rparr>]\<rparr>"

definition unreachable :: remote where
  "unreachable = \<lparr>mapping_endpoint = NetworkFailure, latest_endpoint = NetworkFailure\<rparr>"

definition server_error :: remote where
  "server_error = \<lparr>mapping_endpoint = Response 500 [], latest_endpoint = Response 500 Map.empty\<rparr>"

text \<open>A remote that answers but has no price for any identifier.\<close>

definition delisted :: remote where
  "delisted =
     \<lparr>mapping_endpoint = Response 200 [\<lparr>cat_name = ''Dragon bones'', cat_id = 536\<rparr>],
      latest_endpoint = Response 200 Map.empty\<rparr>"



definition fresh :: tracker where
  "fresh = \<lparr>items = [], all_items = [''Dragon bones'' \<mapsto> 536], db_rows = [], db_seq = 0,
            tracked_items = [], requests = [], stdout = []\<rparr>"

definition bones_row :: "int \<Rightarrow> int \<Rightarrow> int \<Rightarrow> int \<Rightarrow> int \<Rightarrow> row" where
  "bones_row i h l lh ll =
     \<lparr>row_id = i, row_name = ''Dragon bones'', row_high_price = h, row_low_price = l,
      row_last_high_price = Some lh, row_last_low_price = Some ll\<rparr>"

definition bones_item :: "int \<Rightarrow> int \<Rightarrow> int \<Rightarrow> int \<Rightarrow> colour \<Rightarrow> list_item" where
  "bones_item h l dh dl c =
     \<lparr>item_text = \<lparr>label_name = ''Dragon bones'', buy = h, buy_change = dh, sell = l,
                    sell_change = dl\<rparr>,
      user_data = ''Dragon bones'', foreground = c\<rparr>"

text \<open>The state after \<open>Dragon bones\<close> was added to \<open>fresh\<close> at prices 2900 and 2850.\<close>

definition tracking_bones :: tracker where
  "tracking_bones =
     \<lparr>items = [(''Dragon bones'', 536)], all_items = [''Dragon bones'' \<mapsto> 536],
      db_rows = [bones_row 1 2900 2850 2900 2850], db_seq = 1,
      tracked_items = [bones_item 2900 2850 0 0 Amber],
      requests = [base_url @ ''/latest''], stdout = []\<rparr>"

text \<open>The state after it was added a second time.\<close>

definition bones_twice :: tracker where
  "bones_twice =
     tracking_bones
       \<lparr>db_rows := [bones_row 1 2900 2850 2900 2850, bones_row 2 2900 2850 2900 2850],
        db_seq := 2,
        tracked_items := [bones_item 2900 2850 0 0 Amber, bones_item 2900 2850 0 0 Amber],
        requests := [base_url @ ''/latest'', base_url @ ''/latest'']\<rparr>"

section \<open>Auxiliary facts\<close>

lemma str_536: "str 536 = ''536''"
  by (simp add: str_def str_nat.simps)

lemma print_fields [simp]:
  "items (print s st) = items st" "all_items (print s st) = all_items st"
  "db_rows (print s st) = db_rows st" "db_seq (print s st) = db_seq st"
  "tracked_items (print s st) = tracked_items st" "requests (print s st) = requests st"
  "stdout (print s st) = stdout st @ [s]"
  by (simp_all add: print_def)

lemma http_get_fields [simp]:
  "items (http_get u st) = items st" "all_items (http_get u st) = all_items st"
  "db_rows (http_get u st) = db_rows st" "db_seq (http_get u st) = db_seq st"
  "tracked_items (http_get u st) = tracked_items st" "requests (http_get u st) = requests st @ [u]"
  "stdout (http_get u st) = stdout st"
  by (simp_all add: http_get_def)

lemma price_loop_lookup:
  "distinct (map fst its) \<Longrightarrow>
   fst (price_loop data its results out) n =
     (case map_of its n of
        None \<Rightarrow> results n
      | Some iid \<Rightarrow> (case data (str iid) of None \<Rightarrow> results n | Some d \<Rightarrow> Some (quote d)))"
proof (induction its arbitrary: results out)
  case Nil
  then show ?case by simp
next
  case (Cons a its)
  obtain k v where a: "a = (k, v)" by (cases a)
  from Cons.prems a have notin: "k \<notin> fst ` set its" and d: "distinct (map fst its)" by auto
  from notin have none: "map_of its k = None" by (simp add: map_of_eq_None_iff)
  show ?case
  proof (cases "n = k")
    case True
    then show ?thesis using Cons.IH [OF d] none a
      by (simp add: quote_def split: option.splits)
  next
    case False
    then show ?thesis using Cons.IH [OF d] a
      by (simp split: option.splits)
  qed
qed

lemma fetch_prices_frame:
  "items (snd (fetch_prices env st)) = items st"
  "all_items (snd (fetch_prices env st)) = all_items st"
  "db_rows (snd (fetch_prices env st)) = db_rows st"
  "db_seq (snd (fetch_prices env st)) = db_seq st"
  "tracked_items (snd (fetch_prices env st)) = tracked_items st"
  by (simp_all add: fetch_prices_def Let_def split: reply.splits prod.splits)

lemma fetch_prices_lookup:
  assumes "distinct (map fst (items st))" and "fst (fetch_prices env st) = Inr prices"
  shows "prices n =
     (case latest_endpoint env of
        NetworkFailure \<Rightarrow> None
      | Response status_code data \<Rightarrow>
          if status_code = 200
          then (case map_of (items st) n of
                  None \<Rightarrow> None
                | Some iid \<Rightarrow> map_option quote (data (str iid)))
          else None)"
proof (cases "items st = []")
  case True
  with assms(2) have "prices = Map.empty" by (simp add: fetch_prices_def)
  with True show ?thesis by (simp split: reply.splits)
next
  case False
  show ?thesis
  proof (cases "latest_endpoint env")
    case NetworkFailure
    with False assms(2) show ?thesis by (simp add: fetch_prices_def Let_def)
  next
    case (Response sc data)
    show ?thesis
    proof (cases "sc = 200")
      case True
      with False Response assms(2)
      have "prices = fst (price_loop data (items st) Map.empty [])"
        by (auto simp: fetch_prices_def Let_def split: prod.splits)
      with True Response show ?thesis
        using price_loop_lookup [OF assms(1), of data Map.empty "[]" n]
        by (simp split: option.splits)
    next
      case False
      with \<open>items st \<noteq> []\<close> Response assms(2) have "prices = Map.empty"
        by (auto simp: fetch_prices_def Let_def)
      with False Response show ?thesis by simp
    qed
  qed
qed



lemma shown_fields [simp]:
  "user_data (shown n h l lh ll item) = user_data item"
  "item_text (shown n h l lh ll item) = make_text n h l (h - lh) (l - ll)"
  by (simp_all add: shown_def updateItemColor_def)

lemma shown_shown [simp]: "shown n h l lh ll (shown n' h' l' lh' ll' item) = shown n h l lh ll item"
  by (simp add: shown_def updateItemColor_def)

lemma updateItemColor_fields [simp]:
  "user_data (updateItemColor item a b) = user_data item"
  "item_text (updateItemColor item a b) = item_text item"
  by (simp_all add: updateItemColor_def)


lemma update_first_names [simp]:
  "map user_data (update_first n h l lh ll ws) = map user_data ws"
  by (induction ws) (simp_all add: Let_def updateItemColor_def)


lemma update_first_other:
  "n' \<noteq> n \<Longrightarrow>
   filter (\<lambda>w. user_data w = n') (update_first n h l lh ll ws) = filter (\<lambda>w. user_data w = n') ws"
  by (induction ws) (simp_all add: Let_def updateItemColor_def)


lemma refresh_loop_frame [simp]:
  "items (refresh_loop prices rs st) = items st"
  "all_items (refresh_loop prices rs st) = all_items st"
  "db_seq (refresh_loop prices rs st) = db_seq st"
  "requests (refresh_loop prices rs st) = requests st"
  "stdout (refresh_loop prices rs st) = stdout st"
  by (induction rs arbitrary: st; simp add: updateItemInList_def update_by_id_def split: option.splits)+

lemma find_row_by_id:
  "distinct (map row_id rs) \<Longrightarrow> r \<in> set rs \<Longrightarrow> find (\<lambda>x. row_id x = row_id r) rs = Some r"
  by (induction rs) (auto simp: image_iff)

lemma refresh_loop_rows_gen:
  "distinct (map row_id rs) \<Longrightarrow>
   db_rows (refresh_loop prices rs st) =
     map (\<lambda>r. case find (\<lambda>x. row_id x = row_id r) rs of
                 None \<Rightarrow> r
               | Some x \<Rightarrow>
                   (case prices (row_name x) of
                      None \<Rightarrow> r
                    | Some p \<Rightarrow> r\<lparr>row_high_price := high p, row_low_price := low p,
                                   row_last_high_price := Some (row_high_price x),
                                   row_last_low_price := Some (row_low_price x)\<rparr>))
         (db_rows st)"
proof (induction rs arbitrary: st)
  case Nil
  then show ?case by simp
next
  case (Cons a rs)
  from Cons.prems have d: "distinct (map row_id rs)" by simp
  from Cons.prems have notin: "\<forall>x\<in>set rs. row_id x \<noteq> row_id a"
    by (force simp: image_iff)
  from notin have nf: "find (\<lambda>x. row_id x = row_id a) rs = None"
    by (auto simp: find_None_iff)
  show ?case
  proof (cases "prices (row_name a)")
    case None
    then show ?thesis using Cons.IH [OF d, of st] nf
      by (auto intro!: map_cong split: option.splits)
  next
    case (Some p)
    then show ?thesis using Cons.IH [OF d] nf
      by (auto simp: updateItemInList_def update_by_id_def intro!: map_cong split: option.splits)
  qed
qed

lemma refresh_loop_rows:
  assumes "distinct (map row_id (db_rows st))"
  shows "db_rows (refresh_loop prices (db_rows st) st) = map (refreshed prices) (db_rows st)"
  unfolding refresh_loop_rows_gen [OF assms]
  by (rule map_cong) (simp_all add: find_row_by_id [OF assms] refreshed_def)

lemma refresh_loop_names [simp]:
  "map user_data (tracked_items (refresh_loop prices rs st)) = map user_data (tracked_items st)"
  by (induction rs arbitrary: st) (simp_all add: updateItemInList_def update_by_id_def split: option.splits)

lemma refresh_loop_other:
  "prices n = None \<Longrightarrow>
   filter (\<lambda>w. user_data w = n) (tracked_items (refresh_loop prices rs st)) =
   filter (\<lambda>w. user_data w = n) (tracked_items st)"
proof (induction rs arbitrary: st)
  case Nil
  then show ?case by simp
next
  case (Cons a rs)
  show ?case
  proof (cases "prices (row_name a)")
    case None
    then show ?thesis using Cons by simp
  next
    case (Some p)
    with Cons.prems have "n \<noteq> row_name a" by auto
    then show ?thesis using Cons Some
      by (simp add: updateItemInList_def update_by_id_def update_first_other)
  qed
qed


lemma refresh_loop_empty [simp]: "refresh_loop Map.empty rs st = st"
  by (induction rs arbitrary: st) simp_all

lemma add_to_fresh:
  "addSelectedItem (dragon_bones 2900 2850) ''Dragon bones'' fresh = (Inr (), tracking_bones)"
  by (simp add: addSelectedItem_def fresh_def dragon_bones_def fetch_prices_def http_get_def
      str_536 insert_or_replace_def addItemToList_def next_rowid_def Let_def updateItemColor_def
      make_text_def tracking_bones_def bones_row_def bones_item_def)

lemma add_again:
  "addSelectedItem (dragon_bones 2900 2850) ''Dragon bones'' tracking_bones =
     (Inr (), tracking_bones
        \<lparr>db_rows := [bones_row 1 2900 2850 2900 2850, bones_row 2 2900 2850 2900 2850],
         db_seq := 2,
         tracked_items := [bones_item 2900 2850 0 0 Amber, bones_item 2900 2850 0 0 Amber],
         requests := [base_url @ ''/latest'', base_url @ ''/latest'']\<rparr>)"
  by (simp add: addSelectedItem_def dragon_bones_def fetch_prices_def http_get_def
      str_536 insert_or_replace_def addItemToList_def next_rowid_def Let_def updateItemColor_def
      make_text_def tracking_bones_def bones_row_def bones_item_def)

lemma delete_absent: "n \<notin> fst ` set al \<Longrightarrow> AList.delete n al = al"
  by (induction al) (auto simp: AList.delete_eq)

lemma filter_absent: "n \<notin> row_name ` set rs \<Longrightarrow> filter (\<lambda>r. row_name r \<noteq> n) rs = rs"
  by (induction rs) auto





lemma refreshed_absent: "prices (row_name r) = None \<Longrightarrow> refreshed prices r = r"
  by (simp add: refreshed_def)

lemma refreshed_keys [simp]:
  "row_id (refreshed prices r) = row_id r" "row_name (refreshed prices r) = row_name r"
  by (simp_all add: refreshed_def split: option.splits)







lemma refreshPrices_raise:
  "fst (fetch_prices env st) = Inl e \<Longrightarrow> refreshPrices env st = (Inl e, snd (fetch_prices env st))"
  by (cases "fetch_prices env st") (simp add: refreshPrices_def)

lemma refreshPrices_return:
  "fst (fetch_prices env st) = Inr prices \<Longrightarrow>
   refreshPrices env st =
     (Inr (), refresh_loop prices (db_rows st) (snd (fetch_prices env st)))"
  using fetch_prices_frame(3) [of env st]
  by (cases "fetch_prices env st") (simp add: refreshPrices_def)

lemma refresh_loop_rows_from:
  assumes "distinct (map row_id (db_rows st))" and "db_rows st0 = db_rows st"
  shows "db_rows (refresh_loop prices (db_rows st) st0) = map (refreshed prices) (db_rows st)"
  using refresh_loop_rows [of st0 prices] assms by simp

text \<open>
  Well-formedness holds after the constructor, when the table found on disk has its primary
  key, and every operation keeps it, whether it returns or raises.
\<close>

lemma fold_max_start: "s \<le> fold max xs (s::int)"
proof (induction xs arbitrary: s)
  case Nil
  then show ?case by simp
next
  case (Cons a xs)
  have "s \<le> max a s" by simp
  also have "max a s \<le> fold max xs (max a s)" by (rule Cons.IH)
  finally show ?case by simp
qed

lemma fold_max_ge: "x \<in> set xs \<Longrightarrow> x \<le> fold max xs (s::int)"
proof (induction xs arbitrary: s)
  case Nil
  then show ?case by simp
next
  case (Cons a xs)
  show ?case
  proof (cases "x = a")
    case True
    have "a \<le> max a s" by simp
    also have "max a s \<le> fold max xs (max a s)" by (rule fold_max_start)
    finally show ?thesis using True by simp
  next
    case False
    with Cons show ?thesis by simp
  qed
qed

lemma next_rowid_fresh: "next_rowid st \<notin> row_id ` set (db_rows st)"
proof
  assume "next_rowid st \<in> row_id ` set (db_rows st)"
  then have "next_rowid st \<in> set (map row_id (db_rows st))" by simp
  from fold_max_ge [OF this, of "db_seq st"] show False by (simp add: next_rowid_def)
qed

lemma tracker_ok_fetch_prices:
  "tracker_ok st \<Longrightarrow> tracker_ok (snd (fetch_prices env st))"
  by (simp add: tracker_ok_def fetch_prices_frame)

lemma tracker_ok_addSelectedItem:
  assumes "tracker_ok st"
  shows "tracker_ok (snd (addSelectedItem env item_name st))"
proof (cases "truthy (all_items st item_name)")
  case False
  then show ?thesis using assms by (simp add: addSelectedItem_def tracker_ok_def)
next
  case True
  let ?st1 = "st\<lparr>items := AList.update item_name (the (all_items st item_name)) (items st)\<rparr>"
  have ok1: "tracker_ok ?st1" using assms by (simp add: tracker_ok_def distinct_update)
  obtain res st2 where f: "fetch_prices env ?st1 = (res, st2)" by (cases "fetch_prices env ?st1")
  from tracker_ok_fetch_prices [OF ok1, of env] f have ok2: "tracker_ok st2" by simp
  show ?thesis
  proof (cases res)
    case (Inl e)
    then show ?thesis using True f ok2 by (simp add: addSelectedItem_def)
  next
    case (Inr prices)
    show ?thesis
    proof (cases "prices item_name")
      case None
      then show ?thesis using True f Inr ok2 by (simp add: addSelectedItem_def tracker_ok_def)
    next
      case (Some p)
      have "tracker_ok (addItemToList item_name (high p) (low p) (high p) (low p)
              (insert_or_replace item_name (high p) (low p) (high p) (low p) st2))"
        using ok2 next_rowid_fresh [of st2]
        by (auto simp: tracker_ok_def addItemToList_def insert_or_replace_def Let_def)
      then show ?thesis using True f Inr Some by (simp add: addSelectedItem_def)
    qed
  qed
qed

lemma tracker_ok_refreshPrices:
  assumes "tracker_ok st"
  shows "tracker_ok (snd (refreshPrices env st))"
proof (cases "fst (fetch_prices env st)")
  case (Inl e)
  then show ?thesis
    using tracker_ok_fetch_prices [OF assms, of env] by (simp add: refreshPrices_raise)
next
  case (Inr prices)
  from assms have d: "distinct (map row_id (db_rows st))" by (simp add: tracker_ok_def)
  have rows: "db_rows (snd (refreshPrices env st)) = map (refreshed prices) (db_rows st)"
    using refresh_loop_rows_from [OF d fetch_prices_frame(3) [of env st], of prices]
    by (simp add: refreshPrices_return [OF Inr])
  have "map user_data (tracked_items (snd (refreshPrices env st))) = map user_data (tracked_items st)"
    by (simp add: refreshPrices_return [OF Inr] fetch_prices_frame)
  then have w: "user_data ` set (tracked_items (snd (refreshPrices env st))) =
      user_data ` set (tracked_items st)"
    by (metis list.set_map)
  have i: "items (snd (refreshPrices env st)) = items st"
    by (simp add: refreshPrices_return [OF Inr] fetch_prices_frame)
  show ?thesis
    using assms unfolding tracker_ok_def rows w i by (simp add: comp_def image_image)
qed

lemma remove_nth_keeps:
  "m \<in> user_data ` set ws \<Longrightarrow> i < length ws \<Longrightarrow> m \<noteq> user_data (ws ! i) \<Longrightarrow>
   m \<in> user_data ` set (take i ws @ drop (Suc i) ws)"
proof -
  assume m: "m \<in> user_data ` set ws" and i: "i < length ws" and ne: "m \<noteq> user_data (ws ! i)"
  from i have "ws = take i ws @ ws ! i # drop (Suc i) ws" by (rule id_take_nth_drop)
  then have "set ws = set (take i ws @ drop (Suc i) ws) \<union> {ws ! i}"
    by (metis Un_insert_right list.simps(15) set_append sup_bot.right_neutral)
  with m ne show ?thesis by auto
qed

lemma tracker_ok_removeSelectedItem:
  assumes "tracker_ok st"
  shows "tracker_ok (removeSelectedItem current st)"
proof (cases current)
  case None
  then show ?thesis using assms by (simp add: removeSelectedItem_def)
next
  case (Some i)
  show ?thesis
  proof (cases "i < length (tracked_items st)")
    case False
    then show ?thesis using assms Some by (simp add: removeSelectedItem_def)
  next
    case True
    let ?n = "user_data (tracked_items st ! i)"
    have sub: "row_name ` set (filter (\<lambda>r. row_name r \<noteq> ?n) (db_rows st))
        \<subseteq> user_data ` set (take i (tracked_items st) @ drop (Suc i) (tracked_items st))"
    proof
      fix m assume "m \<in> row_name ` set (filter (\<lambda>r. row_name r \<noteq> ?n) (db_rows st))"
      then have "m \<in> row_name ` set (db_rows st)" "m \<noteq> ?n" by auto
      with assms have "m \<in> user_data ` set (tracked_items st)" by (auto simp: tracker_ok_def)
      from remove_nth_keeps [OF this True \<open>m \<noteq> ?n\<close>]
      show "m \<in> user_data ` set (take i (tracked_items st) @ drop (Suc i) (tracked_items st))" .
    qed
    show ?thesis
      using assms Some True sub
      by (simp add: removeSelectedItem_def delete_by_name_def Let_def tracker_ok_def
          distinct_map_filter distinct_delete)
  qed
qed

lemma get_item_id_frame:
  "items (snd (get_item_id env n st)) = items st"
  "db_rows (snd (get_item_id env n st)) = db_rows st"
  "tracked_items (snd (get_item_id env n st)) = tracked_items st"
  by (simp_all add: get_item_id_def Let_def split: reply.splits)

lemma load_loop_ok:
  "load_loop env rs st = (Inr u, st') \<Longrightarrow> distinct (map fst (items st)) \<Longrightarrow>
   db_rows st' = db_rows st \<and> distinct (map fst (items st')) \<and>
   user_data ` set (tracked_items st') = user_data ` set (tracked_items st) \<union> row_name ` set rs"
proof (induction rs arbitrary: st)
  case Nil
  then show ?case by simp
next
  case (Cons r rs)
  let ?lh = "case row_last_high_price r of Some v \<Rightarrow> v | None \<Rightarrow> row_high_price r"
  let ?ll = "case row_last_low_price r of Some v \<Rightarrow> v | None \<Rightarrow> row_low_price r"
  let ?st1 = "addItemToList (row_name r) (row_high_price r) (row_low_price r) ?lh ?ll st"
  obtain res st2 where g: "get_item_id env (row_name r) ?st1 = (res, st2)"
    by (cases "get_item_id env (row_name r) ?st1")
  from Cons.prems(1) g obtain item_id where res: "res = Inr item_id"
    by (cases res) (simp_all add: Let_def)
  let ?st3 = "if truthy item_id
              then st2\<lparr>items := AList.update (row_name r) (the item_id) (items st2)\<rparr> else st2"
  from Cons.prems(1) g res have rec: "load_loop env rs ?st3 = (Inr u, st')"
    by (simp add: Let_def)
  have fr: "items st2 = items st" "db_rows st2 = db_rows st"
    "tracked_items st2 = tracked_items st @
       [updateItemColor
          \<lparr>item_text = make_text (row_name r) (row_high_price r) (row_low_price r)
                         (row_high_price r - ?lh) (row_low_price r - ?ll),
            user_data = row_name r, foreground = DefaultColour\<rparr>
          (row_high_price r - ?lh) (row_low_price r - ?ll)]"
    using get_item_id_frame [of env "row_name r" ?st1] g
    by (simp_all add: addItemToList_def Let_def)
  have d3: "distinct (map fst (items ?st3))"
    using Cons.prems(2) fr by (simp add: distinct_update)
  from Cons.IH [OF rec d3]
  have a: "db_rows st' = db_rows ?st3" "distinct (map fst (items st'))"
    "user_data ` set (tracked_items st') = user_data ` set (tracked_items ?st3) \<union> row_name ` set rs"
    by blast+
  have b: "db_rows ?st3 = db_rows st" "tracked_items ?st3 = tracked_items st2"
    using fr(2) by simp_all
  have c: "user_data ` set (tracked_items st2) = insert (row_name r) (user_data ` set (tracked_items st))"
    unfolding fr(3) by simp
  show ?case
    unfolding a(1) a(3) b c using a(2) by auto
qed


lemma tracker_ok_init:
  assumes "distinct (map row_id stored)" and "init env stored seq = (Inr u, st)"
  shows "tracker_ok st \<and> db_rows st = stored"
proof -
  let ?st0 = "\<lparr>items = [], all_items = Map.empty, db_rows = stored, db_seq = seq,
               tracked_items = [], requests = [], stdout = []\<rparr>"
  obtain res st1 where l: "load_loop env stored ?st0 = (res, st1)"
    by (cases "load_loop env stored ?st0")
  from assms(2) l obtain v where res: "res = Inr v"
    by (cases res) (simp_all add: init_def loadItems_def)
  from load_loop_ok [of env stored ?st0 v st1] l res
  have 1: "db_rows st1 = stored" "distinct (map fst (items st1))"
    "user_data ` set (tracked_items st1) = row_name ` set stored"
    by simp_all
  from assms(2) l res have "st = (snd (fetch_all_items env st1))\<lparr>all_items := fst (fetch_all_items env st1)\<rparr>"
    by (auto simp: init_def loadItems_def split: prod.splits)
  moreover have "items (snd (fetch_all_items env st1)) = items st1"
    "db_rows (snd (fetch_all_items env st1)) = db_rows st1"
    "tracked_items (snd (fetch_all_items env st1)) = tracked_items st1"
    by (simp_all add: fetch_all_items_def Let_def split: reply.splits)
  ultimately show ?thesis
    using 1 assms(1) by (simp add: tracker_ok_def)
qed

section \<open>The claims\<close>

text \<open>
  C7. The colour given to a list item is a function of the two changes alone: green
  (improving) exactly when both are positive, red (declining) exactly when both are
  negative, amber (mixed) in every other case, so a zero change and changes of opposite
  sign both give amber.
\<close>

theorem updateItemColor_classifies:
  "(foreground (updateItemColor item high_change low_change) = Green
      \<longleftrightarrow> high_change > 0 \<and> low_change > 0) \<and>
   (foreground (updateItemColor item high_change low_change) = Red
      \<longleftrightarrow> high_change < 0 \<and> low_change < 0) \<and>
   (foreground (updateItemColor item high_change low_change) = Amber
      \<longleftrightarrow> \<not> (high_change > 0 \<and> low_change > 0) \<and> \<not> (high_change < 0 \<and> low_change < 0)) \<and>
   foreground (updateItemColor item high_change low_change) =
     foreground (updateItemColor item' high_change low_change)"
  by (simp add: updateItemColor_def)

theorem updateItemColor_classifies_witness:
  "foreground (updateItemColor (bones_item 2900 2850 0 0 DefaultColour) 100 (- 50)) = Amber \<and>
   foreground (updateItemColor (bones_item 2900 2850 0 0 DefaultColour) 0 0) = Amber \<and>
   foreground (updateItemColor (bones_item 2900 2850 0 0 DefaultColour) 100 50) = Green \<and>
   foreground (updateItemColor (bones_item 2900 2850 0 0 DefaultColour) (- 100) (- 50)) = Red"
  using updateItemColor_classifies [of "bones_item 2900 2850 0 0 DefaultColour" 100 "- 50"]
        updateItemColor_classifies [of "bones_item 2900 2850 0 0 DefaultColour" 0 0]
        updateItemColor_classifies [of "bones_item 2900 2850 0 0 DefaultColour" 100 50]
        updateItemColor_classifies [of "bones_item 2900 2850 0 0 DefaultColour" "- 100" "- 50"]
  by simp

text \<open>
  C10. With no item registered in the tracker, \<open>fetch_prices\<close> returns the empty dict
  whatever the remote would answer, and the list of issued requests is unchanged;
  \<open>refreshPrices\<close> then returns normally and changes nothing but the console, where the
  one line of \<open>fetch_prices\<close> is printed.
\<close>

theorem fetch_prices_empty_no_request:
  assumes "items st = []"
  shows "fetch_prices env st =
           (Inr Map.empty, print ''No items to track. Add items using add_item() method.'' st) \<and>
         requests (snd (fetch_prices env st)) = requests st \<and>
         refreshPrices env st =
           (Inr (), print ''No items to track. Add items using add_item() method.'' st) \<and>
         requests (snd (refreshPrices env st)) = requests st \<and>
         db_rows (snd (refreshPrices env st)) = db_rows st \<and>
         tracked_items (snd (refreshPrices env st)) = tracked_items st"
  using assms by (simp add: fetch_prices_def refreshPrices_def)

theorem fetch_prices_empty_no_request_witness:
  "items fresh = [] \<and>
   fetch_prices (dragon_bones 2900 2850) fresh =
     (Inr Map.empty, print ''No items to track. Add items using add_item() method.'' fresh) \<and>
   fetch_prices unreachable fresh = fetch_prices (dragon_bones 2900 2850) fresh \<and>
   requests (snd (refreshPrices unreachable fresh)) = []"
proof -
  have h: "items fresh = []" by (simp add: fresh_def)
  have r: "requests fresh = []" by (simp add: fresh_def)
  show ?thesis
    using h r fetch_prices_empty_no_request [OF h, of "dragon_bones 2900 2850"]
      fetch_prices_empty_no_request [OF h, of unreachable]
    by simp
qed

text \<open>
  C3 (the table does not keep names unique). \<open>addSelectedItem\<close> writes with
  \<^verbatim>\<open>INSERT OR REPLACE\<close>, but the table has no uniqueness constraint on \<^verbatim>\<open>name\<close>: adding
  \<open>Dragon bones\<close> to a tracker that already tracks it leaves two rows of that name.
\<close>

theorem add_twice_two_rows:
  "snd (addSelectedItem (dragon_bones 2900 2850) ''Dragon bones'' fresh) = tracking_bones \<and>
   map row_name
     (db_rows (snd (addSelectedItem (dragon_bones 2900 2850) ''Dragon bones'' tracking_bones))) =
     [''Dragon bones'', ''Dragon bones''] \<and>
   map row_id
     (db_rows (snd (addSelectedItem (dragon_bones 2900 2850) ''Dragon bones'' tracking_bones))) =
     [1, 2]"
  by (simp add: add_to_fresh add_again bones_row_def)

text \<open>
  C4 (an exception leaves the operations). With the remote unreachable the request of
  \<open>get_item_id\<close> raises and nothing catches it; likewise in \<open>fetch_prices\<close>, and so in
  \<open>refreshPrices\<close> and \<open>addSelectedItem\<close>. \<open>fetch_all_items\<close>, which sends the same request
  as \<open>get_item_id\<close>, does catch it. A status other than 200 gives \<^verbatim>\<open>None\<close>.
\<close>

theorem network_error_propagates:
  "fst (get_item_id unreachable ''Dragon bones'' fresh) = Inl RequestException \<and>
   fst (fetch_prices unreachable tracking_bones) = Inl RequestException \<and>
   fst (refreshPrices unreachable tracking_bones) = Inl RequestException \<and>
   fst (addSelectedItem unreachable ''Dragon bones'' fresh) = Inl RequestException \<and>
   fst (fetch_all_items unreachable fresh) = Map.empty \<and>
   fst (get_item_id server_error ''Dragon bones'' fresh) = Inr None"
  by (simp add: get_item_id_def fetch_prices_def refreshPrices_def addSelectedItem_def
      fetch_all_items_def unreachable_def server_error_def fresh_def tracking_bones_def Let_def)

text \<open>
  C9. \<open>removeSelectedItem\<close> on a current item named \<open>n\<close> deletes every stored row named
  \<open>n\<close> and the tracker's entry for \<open>n\<close>, and keeps all other rows and entries. When no row
  (no entry) carries the name, the table (the dict) is unchanged; in particular a second
  removal for the same name changes neither. With no current item nothing changes. The
  function has no failing path.
\<close>

theorem removeSelectedItem_idempotent:
  fixes st :: tracker and i :: nat
  defines "n \<equiv> user_data (tracked_items st ! i)"
  defines "st' \<equiv> removeSelectedItem (Some i) st"
  assumes "i < length (tracked_items st)"
  shows "db_rows st' = filter (\<lambda>r. row_name r \<noteq> n) (db_rows st) \<and>
         items st' = AList.delete n (items st) \<and>
         n \<notin> row_name ` set (db_rows st') \<and> n \<notin> fst ` set (items st') \<and>
         (n \<notin> row_name ` set (db_rows st) \<longrightarrow> db_rows st' = db_rows st) \<and>
         (n \<notin> fst ` set (items st) \<longrightarrow> items st' = items st) \<and>
         (\<forall>j. j < length (tracked_items st') \<longrightarrow> user_data (tracked_items st' ! j) = n \<longrightarrow>
              db_rows (removeSelectedItem (Some j) st') = db_rows st' \<and>
              items (removeSelectedItem (Some j) st') = items st') \<and>
         db_seq st' = db_seq st \<and> all_items st' = all_items st \<and>
         removeSelectedItem None st = st"
proof -
  have rows: "db_rows st' = filter (\<lambda>r. row_name r \<noteq> n) (db_rows st)"
    and its: "items st' = AList.delete n (items st)"
    and rest: "db_seq st' = db_seq st" "all_items st' = all_items st"
    using assms by (simp_all add: removeSelectedItem_def delete_by_name_def Let_def)
  have gone: "n \<notin> row_name ` set (db_rows st')" "n \<notin> fst ` set (items st')"
    unfolding rows its by (auto simp: AList.delete_eq)
  have again: "db_rows (removeSelectedItem (Some j) st') = db_rows st' \<and>
      items (removeSelectedItem (Some j) st') = items st'"
    if "j < length (tracked_items st')" "user_data (tracked_items st' ! j) = n" for j
    using that gone
    by (simp add: removeSelectedItem_def delete_by_name_def Let_def delete_absent filter_absent)
  show ?thesis
    using rows its rest gone again
    by (simp add: delete_absent filter_absent removeSelectedItem_def)
qed

theorem removeSelectedItem_idempotent_witness:
  "0 < length (tracked_items bones_twice) \<and>
   user_data (tracked_items bones_twice ! 0) = ''Dragon bones'' \<and>
   db_rows (removeSelectedItem (Some 0) bones_twice) = [] \<and>
   items (removeSelectedItem (Some 0) bones_twice) = [] \<and>
   tracked_items (removeSelectedItem (Some 0) bones_twice) = [bones_item 2900 2850 0 0 Amber] \<and>
   db_rows (removeSelectedItem (Some 0) (removeSelectedItem (Some 0) bones_twice)) = [] \<and>
   items (removeSelectedItem (Some 0) (removeSelectedItem (Some 0) bones_twice)) = []"
proof -
  have len: "0 < length (tracked_items bones_twice)"
    by (simp add: bones_twice_def)
  have n: "user_data (tracked_items bones_twice ! 0) = ''Dragon bones''"
    by (simp add: bones_twice_def bones_item_def)
  have w: "tracked_items (removeSelectedItem (Some 0) bones_twice) = [bones_item 2900 2850 0 0 Amber]"
    by (simp add: removeSelectedItem_def bones_twice_def delete_by_name_def Let_def)
  have rows: "filter (\<lambda>r. row_name r \<noteq> ''Dragon bones'') (db_rows bones_twice) = []"
    by (simp add: bones_twice_def bones_row_def)
  have its: "AList.delete ''Dragon bones'' (items bones_twice) = []"
    by (simp add: bones_twice_def tracking_bones_def AList.delete_eq)
  show ?thesis
    using removeSelectedItem_idempotent [OF len] len n w rows its
    by (simp add: bones_item_def)
qed






text \<open>
  C5 as stated fails in its last part: nothing reports a stale item. After a refresh whose
  fetch fails with status 500 the list widget and the table are what they were, the call
  returns as after any refresh, and the console shows the one generic line of
  \<open>fetch_prices\<close>, which names no item.
\<close>

theorem refreshPrices_no_stale_report_counterexample:
  "fst (refreshPrices server_error tracking_bones) = Inr () \<and>
   tracked_items (snd (refreshPrices server_error tracking_bones)) =
     tracked_items tracking_bones \<and>
   db_rows (snd (refreshPrices server_error tracking_bones)) = db_rows tracking_bones \<and>
   stdout (snd (refreshPrices server_error tracking_bones)) =
     [''Failed to fetch prices. Please try again later.'']"
  by (simp add: refreshPrices_def fetch_prices_def server_error_def tracking_bones_def Let_def)

text \<open>
  C5, amended. Let \<open>id\<close> be the primary key and \<open>items\<close> a dict. For a stored row whose name
  has no price in the snapshot (the request raised, the status was not 200, the name is not
  registered, or the response has no entry for its identifier), \<open>refreshPrices\<close> leaves the
  row as it is, keeps every row of the table (same ids and names, in order), keeps the
  tracker's dict and the names of the list widget, and leaves every list item of that name
  exactly as it was: no flag marks the item.
\<close>

theorem refreshPrices_keeps_absent_items:
  assumes "distinct (map row_id (db_rows st))" and "distinct (map fst (items st))"
    and "r \<in> set (db_rows st)"
    and absent: "\<forall>data iid. latest_endpoint env = Response 200 data \<longrightarrow>
                   map_of (items st) (row_name r) = Some iid \<longrightarrow> data (str iid) = None"
  shows "r \<in> set (db_rows (snd (refreshPrices env st))) \<and>
         map row_id (db_rows (snd (refreshPrices env st))) = map row_id (db_rows st) \<and>
         map row_name (db_rows (snd (refreshPrices env st))) = map row_name (db_rows st) \<and>
         items (snd (refreshPrices env st)) = items st \<and>
         map user_data (tracked_items (snd (refreshPrices env st))) =
           map user_data (tracked_items st) \<and>
         filter (\<lambda>w. user_data w = row_name r) (tracked_items (snd (refreshPrices env st))) =
           filter (\<lambda>w. user_data w = row_name r) (tracked_items st)"
proof -
  obtain res st1 where f: "fetch_prices env st = (res, st1)" by (cases "fetch_prices env st")
  have fr: "items st1 = items st" "db_rows st1 = db_rows st" "tracked_items st1 = tracked_items st"
    using fetch_prices_frame [of env st] f by simp_all
  show ?thesis
  proof (cases res)
    case (Inl e)
    then show ?thesis using f fr assms(3) by (simp add: refreshPrices_def)
  next
    case (Inr prices)
    have none: "prices (row_name r) = None"
      using fetch_prices_lookup [OF assms(2), of env prices "row_name r"] f Inr absent
      by (auto split: reply.splits option.splits if_splits)
    have d1: "distinct (map row_id (db_rows st1))" using assms(1) fr by simp
    have st': "snd (refreshPrices env st) = refresh_loop prices (db_rows st1) st1"
      using f Inr by (simp add: refreshPrices_def)
    have rows: "db_rows (snd (refreshPrices env st)) = map (refreshed prices) (db_rows st)"
      unfolding st' using refresh_loop_rows [OF d1, of prices] by (simp add: fr)
    have "refreshed prices r \<in> set (db_rows (snd (refreshPrices env st)))"
      unfolding rows using assms(3) by simp
    then have 1: "r \<in> set (db_rows (snd (refreshPrices env st)))"
      using none by (simp add: refreshed_absent)
    have 2: "map row_id (db_rows (snd (refreshPrices env st))) = map row_id (db_rows st)"
      "map row_name (db_rows (snd (refreshPrices env st))) = map row_name (db_rows st)"
      unfolding rows by (simp_all add: comp_def)
    have 3: "items (snd (refreshPrices env st)) = items st"
      "map user_data (tracked_items (snd (refreshPrices env st))) = map user_data (tracked_items st)"
      unfolding st' by (simp_all add: fr)
    have 4: "filter (\<lambda>w. user_data w = row_name r) (tracked_items (snd (refreshPrices env st))) =
           filter (\<lambda>w. user_data w = row_name r) (tracked_items st)"
      unfolding st' using none refresh_loop_other [of prices "row_name r" "db_rows st1" st1] by (simp add: fr)
    from 1 2 3 4 show ?thesis by simp
  qed
qed

theorem refreshPrices_keeps_absent_items_witness:
  "distinct (map row_id (db_rows tracking_bones)) \<and>
   distinct (map fst (items tracking_bones)) \<and>
   bones_row 1 2900 2850 2900 2850 \<in> set (db_rows tracking_bones) \<and>
   bones_row 1 2900 2850 2900 2850 \<in> set (db_rows (snd (refreshPrices delisted tracking_bones))) \<and>
   map row_id (db_rows (snd (refreshPrices delisted tracking_bones))) = [1] \<and>
   filter (\<lambda>w. user_data w = ''Dragon bones'')
     (tracked_items (snd (refreshPrices delisted tracking_bones))) =
     [bones_item 2900 2850 0 0 Amber] \<and>
   bones_row 1 2900 2850 2900 2850 \<in> set (db_rows (snd (refreshPrices unreachable tracking_bones)))"
proof -
  let ?r = "bones_row 1 2900 2850 2900 2850"
  have h1: "distinct (map row_id (db_rows tracking_bones))" by (simp add: tracking_bones_def)
  have h2: "distinct (map fst (items tracking_bones))" by (simp add: tracking_bones_def)
  have h3: "?r \<in> set (db_rows tracking_bones)" by (simp add: tracking_bones_def)
  have h4: "\<forall>data iid. latest_endpoint delisted = Response 200 data \<longrightarrow>
      map_of (items tracking_bones) (row_name ?r) = Some iid \<longrightarrow> data (str iid) = None"
    by (auto simp: delisted_def)
  have h5: "\<forall>data iid. latest_endpoint unreachable = Response 200 data \<longrightarrow>
      map_of (items tracking_bones) (row_name ?r) = Some iid \<longrightarrow> data (str iid) = None"
    by (simp add: unreachable_def)
  have n: "row_name ?r = ''Dragon bones''" by (simp add: bones_row_def)
  have e: "map row_id (db_rows tracking_bones) = [1]"
    "filter (\<lambda>w. user_data w = ''Dragon bones'') (tracked_items tracking_bones) =
       [bones_item 2900 2850 0 0 Amber]"
    by (simp_all add: tracking_bones_def bones_row_def bones_item_def)
  show ?thesis
    using refreshPrices_keeps_absent_items [OF h1 h2 h3 h4]
      refreshPrices_keeps_absent_items [OF h1 h2 h3 h5] h1 h2 h3 n e
    by simp
qed





end
